theory Spec2Isabelle
  imports Complex_Main
begin

section \<open>The Eka Care SDK client (ekacare_sdk/sdk.py)\<close>

text \<open>
  A shallow embedding of the class \<open>EkaCareSDK\<close>: construction with its authentication
  exchange, \<open>process_document\<close>, \<open>get_document_result\<close> and \<open>process_and_wait\<close>
  with its polling loop. Everything the methods do outside the interpreter (the file
  system, the wall clock, the HTTP session) is a field of an explicit \<open>world\<close> that
  every operation takes and returns; each clock reading, HTTP exchange and sleep is
  appended to the world's \<open>trace\<close>, so the order and number of the calls can be stated.
  Every \<open>raise\<close> of the source, and every exception of the library calls it makes, is
  a value \<open>Inl e\<close> of a sum type.
\<close>

subsection \<open>Decoded JSON values\<close>

text \<open>
  What \<open>response.json()\<close> returns: \<open>None\<close>, a bool, an int, a float (idealised as a
  real number), a str, a list or a dict. A dict is an association list read with
  \<open>map_of\<close>.
\<close>

datatype json =
    JNull
  | JBool bool
  | JInt int
  | JFloat real
  | JStr string
  | JArr "json list"
  | JObj "(string \<times> json) list"

text \<open>Python's truth value of a decoded JSON value, as \<open>if x\<close> and \<open>x and y\<close> test it.\<close>

fun truthy :: "json \<Rightarrow> bool" where
  "truthy JNull = False"
| "truthy (JBool b) = b"
| "truthy (JInt i) = (i \<noteq> 0)"
| "truthy (JFloat r) = (r \<noteq> 0)"
| "truthy (JStr s) = (s \<noteq> [])"
| "truthy (JArr xs) = (xs \<noteq> [])"
| "truthy (JObj d) = (d \<noteq> [])"

subsection \<open>Exceptions\<close>

text \<open>
  The exceptions the SDK raises or lets through. The source raises the builtin
  \<open>Exception\<close> with three different messages; they are kept apart here:
  \<^item> \<open>AuthenticationFailed\<close>: \<open>Exception("Authentication failed: ...")\<close> (sdk.py line 79);
  \<^item> \<open>AccessTokenNotFound\<close>: \<open>Exception("Access token not found in authentication response")\<close> (line 81);
  \<^item> \<open>ProcessingFailed\<close>: \<open>Exception("Document processing failed")\<close> (line 226).

  \<open>ConnectionError\<close>, \<open>HTTPError\<close> and \<open>JSONDecodeError\<close> are the subclasses of
  \<open>requests.exceptions.RequestException\<close> that the session can raise (the package
  requires requests 2.28 or later, where a body that is not JSON raises the
  library's own \<open>JSONDecodeError\<close>).
\<close>

datatype error =
    FileNotFoundError
  | ValueError
  | OSError
  | KeyError
  | TypeError
  | AttributeError
  | TimeoutError
  | ConnectionError
  | HTTPError
  | JSONDecodeError
  | AuthenticationFailed
  | AccessTokenNotFound
  | ProcessingFailed

fun is_request_exception :: "error \<Rightarrow> bool" where
  "is_request_exception ConnectionError = True"
| "is_request_exception HTTPError = True"
| "is_request_exception JSONDecodeError = True"
| "is_request_exception e = False"

text \<open>
  \<open>x.get(key, default)\<close>: only a dict has the method; on every other decoded value the
  attribute lookup raises \<open>AttributeError\<close>.
\<close>

fun py_get :: "json \<Rightarrow> string \<Rightarrow> json \<Rightarrow> error + json" where
  "py_get (JObj d) k dflt = Inr (case map_of d k of None \<Rightarrow> dflt | Some v \<Rightarrow> v)"
| "py_get x k dflt = Inl AttributeError"

text \<open>
  \<open>x[key]\<close> with a str key: \<open>KeyError\<close> on a dict without the key, \<open>TypeError\<close> on
  every value that is not a dict.
\<close>

fun py_item :: "json \<Rightarrow> string \<Rightarrow> error + json" where
  "py_item (JObj d) k = (case map_of d k of None \<Rightarrow> Inl KeyError | Some v \<Rightarrow> Inr v)"
| "py_item x k = Inl TypeError"

subsection \<open>Requests, replies and the world\<close>

text \<open>
  A formatted string is a list of pieces: literal text and \<open>str(v)\<close> of a decoded
  value \<open>v\<close> (the f-string \<open>f"Bearer {token}"\<close> is \<open>[Lit ''Bearer '', Str token]\<close>).
  \<open>text_of\<close> gives the characters where every formatted value is a str.
\<close>

datatype piece = Lit string | Str json

type_synonym ftext = "piece list"

fun text_of :: "ftext \<Rightarrow> string option" where
  "text_of [] = Some []"
| "text_of (Lit s # ps) = map_option (\<lambda>t. s @ t) (text_of ps)"
| "text_of (Str (JStr s) # ps) = map_option (\<lambda>t. s @ t) (text_of ps)"
| "text_of (Str v # ps) = None"

datatype http_method = GET | POST

text \<open>
  The body of a request: none, \<open>json=payload\<close>, or \<open>files={"file": (name, file,
  content_type)}\<close> with the file's content.
\<close>

datatype content = NoBody | JsonBody json | FileUpload string string string

record request =
  req_method :: http_method
  req_url :: ftext
  req_headers :: "(string \<times> ftext) list"
  req_params :: "(string \<times> string) list"
  req_body :: content

text \<open>
  What the session gets back: no response at all (the call raises
  \<open>ConnectionError\<close>), or a status code and the body, decoded when it is JSON.
\<close>

datatype reply = NoResponse | Response nat "json option"

datatype event = ClockRead real | Http request reply | Sleep int

text \<open>A path names a file that can be opened for reading, or something that cannot.\<close>

datatype fs_entry = Readable string | Unreadable

text \<open>
  The world: the file system, the table of \<open>mimetypes.guess_type\<close>, the readings
  \<open>time.time()\<close> will give (the next one first), the server's replies (the reply to
  the next request first), and the trace of what has happened so far.
\<close>

record world =
  files :: "string \<Rightarrow> fs_entry option"
  guess_type :: "string \<Rightarrow> string option"
  clock :: "nat \<Rightarrow> real"
  server :: "nat \<Rightarrow> request \<Rightarrow> reply"
  trace :: "event list"

definition time_time :: "world \<Rightarrow> real \<times> world" where
  "time_time w =
     (clock w 0, w\<lparr>clock := \<lambda>k. clock w (Suc k), trace := trace w @ [ClockRead (clock w 0)]\<rparr>)"

text \<open>\<open>time.sleep\<close> raises \<open>ValueError\<close> on a negative length.\<close>

definition time_sleep :: "int \<Rightarrow> world \<Rightarrow> (error + unit) \<times> world" where
  "time_sleep secs w =
     (if secs < 0 then (Inl ValueError, w)
      else (Inr (), w\<lparr>trace := trace w @ [Sleep secs]\<rparr>))"

definition send :: "request \<Rightarrow> world \<Rightarrow> reply \<times> world" where
  "send r w =
     (server w 0 r,
      w\<lparr>server := \<lambda>k. server w (Suc k), trace := trace w @ [Http r (server w 0 r)]\<rparr>)"

text \<open>The events appended to the trace between two worlds.\<close>

definition events_since :: "world \<Rightarrow> world \<Rightarrow> event list" where
  "events_since w w' = drop (length (trace w)) (trace w')"

subsection \<open>The client object and its session\<close>

record sdk =
  client_id :: string
  client_secret :: string
  base_url :: string
  bearer_token :: "json option"
  session_headers :: "(string \<times> ftext) list"

definition AUTH_ENDPOINT :: string where
  "AUTH_ENDPOINT = ''/connect-auth/v1/account/login''"

definition PROCESS_ENDPOINT :: string where
  "PROCESS_ENDPOINT = ''/mr/api/v2/docs''"

text \<open>\<open>RESULT_ENDPOINT.format(document_id=document_id)\<close>\<close>

definition RESULT_ENDPOINT :: "json \<Rightarrow> ftext" where
  "RESULT_ENDPOINT document_id = [Lit ''/mr/api/v1/docs/'', Str document_id, Lit ''/result'']"

text \<open>\<open>base_url.rstrip('/')\<close>\<close>

definition rstrip_slash :: "string \<Rightarrow> string" where
  "rstrip_slash s = rev (dropWhile (\<lambda>c. c = CHR ''/'') (rev s))"

text \<open>
  A request made through the session carries the session's headers; a header given
  with the call takes precedence over the session's header of the same name.
\<close>

definition merge_headers :: "(string \<times> ftext) list \<Rightarrow> (string \<times> ftext) list \<Rightarrow> (string \<times> ftext) list" where
  "merge_headers session_hs request_hs =
     request_hs @ filter (\<lambda>h. map_of request_hs (fst h) = None) session_hs"

definition session_request ::
  "sdk \<Rightarrow> http_method \<Rightarrow> ftext \<Rightarrow> (string \<times> ftext) list \<Rightarrow> (string \<times> string) list \<Rightarrow> content \<Rightarrow> request" where
  "session_request s m u hs ps b =
     \<lparr>req_method = m, req_url = u, req_headers = merge_headers (session_headers s) hs,
      req_params = ps, req_body = b\<rparr>"

text \<open>
  \<open>response.raise_for_status()\<close> followed by \<open>response.json()\<close>: \<open>HTTPError\<close> on a
  status from 400 to 599, \<open>JSONDecodeError\<close> on a body that is not JSON.
\<close>

fun response_json :: "reply \<Rightarrow> error + json" where
  "response_json NoResponse = Inl ConnectionError"
| "response_json (Response code body) =
     (if 400 \<le> code \<and> code < 600 then Inl HTTPError
      else case body of None \<Rightarrow> Inl JSONDecodeError | Some v \<Rightarrow> Inr v)"

subsection \<open>Construction and authentication\<close>

definition auth_request :: "sdk \<Rightarrow> request" where
  "auth_request s =
     session_request s POST [Lit (base_url s @ AUTH_ENDPOINT)]
       [(''Content-Type'', [Lit ''application/json''])] []
       (JsonBody (JObj [(''client_id'', JStr (client_id s)),
                        (''client_secret'', JStr (client_secret s))]))"

text \<open>The body of the \<open>try\<close> block of \<open>_authenticate\<close> (lines 67 to 76).\<close>

definition authenticate_try :: "sdk \<Rightarrow> world \<Rightarrow> (error + sdk) \<times> world" where
  "authenticate_try s w =
     (case send (auth_request s) w of (response, w') \<Rightarrow>
        (case response_json response of
           Inl e \<Rightarrow> (Inl e, w')
         | Inr data \<Rightarrow>
             (case py_item data ''access_token'' of
                Inl e \<Rightarrow> (Inl e, w')
              | Inr token \<Rightarrow>
                  (Inr (s\<lparr>bearer_token := Some token,
                          session_headers :=
                            (''Authorization'', [Lit ''Bearer '', Str token])
                              # filter (\<lambda>h. fst h \<noteq> ''Authorization'') (session_headers s)\<rparr>),
                   w'))))"

text \<open>
  \<open>_authenticate\<close>: the two \<open>except\<close> clauses turn a \<open>RequestException\<close> and a
  \<open>KeyError\<close> into the two authentication failures; any other exception passes.
\<close>

definition authenticate :: "sdk \<Rightarrow> world \<Rightarrow> (error + sdk) \<times> world" where
  "authenticate s w =
     (case authenticate_try s w of
        (Inl e, w') \<Rightarrow>
          (if is_request_exception e then (Inl AuthenticationFailed, w')
           else if e = KeyError then (Inl AccessTokenNotFound, w')
           else (Inl e, w'))
      | (Inr s', w') \<Rightarrow> (Inr s', w'))"

text \<open>
  \<open>__init__\<close>: the fields are set (lines 43 to 47; the session starts with no header of
  the SDK's), then \<open>_authenticate\<close> runs.
\<close>

definition new_sdk :: "string \<Rightarrow> string \<Rightarrow> string \<Rightarrow> sdk" where
  "new_sdk cid secret url =
     \<lparr>client_id = cid, client_secret = secret, base_url = rstrip_slash url,
      bearer_token = None, session_headers = []\<rparr>"

definition init :: "string \<Rightarrow> string \<Rightarrow> string \<Rightarrow> world \<Rightarrow> (error + sdk) \<times> world" where
  "init cid secret url w = authenticate (new_sdk cid secret url) w"

subsection \<open>Submitting a document\<close>

definition valid_tasks :: "string list" where
  "valid_tasks = [''smart'', ''pii'', ''both'']"

text \<open>\<open>Path(file_path).name\<close>: the last component of the path, empty when there is none.\<close>

fun split_on :: "char \<Rightarrow> string \<Rightarrow> string list" where
  "split_on c [] = [[]]"
| "split_on c (x # xs) =
     (if x = c then [] # split_on c xs
      else (case split_on c xs of [] \<Rightarrow> [[x]] | y # ys \<Rightarrow> (x # y) # ys))"

definition path_name :: "string \<Rightarrow> string" where
  "path_name p =
     (case filter (\<lambda>s. s \<noteq> [] \<and> s \<noteq> ''.'') (split_on (CHR ''/'') p) of
        [] \<Rightarrow> []
      | seg # segs \<Rightarrow> last (seg # segs))"

text \<open>The query parameters built in lines 122 to 128.\<close>

definition build_params :: "string \<Rightarrow> string \<Rightarrow> (string \<times> string) list" where
  "build_params doc_type task =
     [(''dt'', doc_type)] @
     (if task = ''both'' then [(''task'', ''smart''), (''task'', ''pii'')]
      else [(''task'', task)])"

definition upload_request :: "sdk \<Rightarrow> string \<Rightarrow> string \<Rightarrow> string \<Rightarrow> string \<Rightarrow> string option \<Rightarrow> request" where
  "upload_request s file_path doc_type task file_content content_type =
     session_request s POST [Lit (base_url s @ PROCESS_ENDPOINT)] []
       (build_params doc_type task)
       (FileUpload (path_name file_path) file_content
          (case content_type of None \<Rightarrow> ''application/octet-stream'' | Some t \<Rightarrow> t))"

definition process_document ::
  "sdk \<Rightarrow> string \<Rightarrow> string \<Rightarrow> string \<Rightarrow> world \<Rightarrow> (error + json) \<times> world" where
  "process_document s file_path doc_type task w =
     (if files w file_path = None then (Inl FileNotFoundError, w)
      else if task \<notin> set valid_tasks then (Inl ValueError, w)
      else
        (case files w file_path of
           Some (Readable file_content) \<Rightarrow>
             (case send (upload_request s file_path doc_type task file_content
                           (guess_type w file_path)) w of
                (response, w') \<Rightarrow> (response_json response, w'))
         | _ \<Rightarrow> (Inl OSError, w)))"

subsection \<open>Fetching a result\<close>

definition result_request :: "sdk \<Rightarrow> json \<Rightarrow> request" where
  "result_request s document_id =
     session_request s GET (Lit (base_url s) # RESULT_ENDPOINT document_id) [] [] NoBody"

definition get_document_result :: "sdk \<Rightarrow> json \<Rightarrow> world \<Rightarrow> (error + json) \<times> world" where
  "get_document_result s document_id w =
     (case send (result_request s document_id) w of
        (response, w') \<Rightarrow> (response_json response, w'))"

subsection \<open>Submitting and waiting\<close>

text \<open>
  Lines 218 to 221: \<open>data = result.get("data", {})\<close>, then
  \<open>data.get("fhir") and data.get("output")\<close> as a truth value.
\<close>

definition processing_complete :: "json \<Rightarrow> error + bool" where
  "processing_complete result =
     (case py_get result ''data'' (JObj []) of
        Inl e \<Rightarrow> Inl e
      | Inr data \<Rightarrow>
          (case py_get data ''fhir'' JNull of
             Inl e \<Rightarrow> Inl e
           | Inr fhir \<Rightarrow>
               (if truthy fhir then
                  (case py_get data ''output'' JNull of
                     Inl e \<Rightarrow> Inl e
                   | Inr output \<Rightarrow> Inr (truthy output))
                else Inr False)))"

text \<open>Line 225: \<open>result.get("status") == "failed"\<close>.\<close>

definition processing_failed :: "json \<Rightarrow> error + bool" where
  "processing_failed result =
     (case py_get result ''status'' JNull of
        Inl e \<Rightarrow> Inl e
      | Inr status \<Rightarrow> Inr (status = JStr ''failed''))"

text \<open>
  The \<open>while True\<close> loop of \<open>process_and_wait\<close> (lines 210 to 229). The first argument
  bounds the number of iterations: the loop itself has no bound, and \<open>None\<close> says
  that it is still waiting after that many iterations.
\<close>

fun process_and_wait_loop ::
  "nat \<Rightarrow> sdk \<Rightarrow> json \<Rightarrow> int \<Rightarrow> int \<Rightarrow> real \<Rightarrow> world \<Rightarrow> (error + json) option \<times> world" where
  "process_and_wait_loop 0 s document_id poll_interval timeout start_time w = (None, w)"
| "process_and_wait_loop (Suc n) s document_id poll_interval timeout start_time w =
     (case time_time w of (now, w1) \<Rightarrow>
        if now - start_time > real_of_int timeout then (Some (Inl TimeoutError), w1)
        else
          (case get_document_result s document_id w1 of
             (Inl e, w2) \<Rightarrow> (Some (Inl e), w2)
           | (Inr result, w2) \<Rightarrow>
               (case processing_complete result of
                  Inl e \<Rightarrow> (Some (Inl e), w2)
                | Inr done_now \<Rightarrow>
                    if done_now then (Some (Inr result), w2)
                    else
                      (case processing_failed result of
                         Inl e \<Rightarrow> (Some (Inl e), w2)
                       | Inr failed \<Rightarrow>
                           if failed then (Some (Inl ProcessingFailed), w2)
                           else
                             (case time_sleep poll_interval w2 of
                                (Inl e, w3) \<Rightarrow> (Some (Inl e), w3)
                              | (Inr u, w3) \<Rightarrow>
                                  process_and_wait_loop n s document_id poll_interval
                                    timeout start_time w3)))))"

text \<open>
  \<open>process_and_wait\<close>: the submission (with the default \<open>doc_type\<close>), the subscript
  \<open>submit_result["document_id"]\<close>, the reading of \<open>start_time\<close>, and the loop.
\<close>

definition process_and_wait ::
  "nat \<Rightarrow> sdk \<Rightarrow> string \<Rightarrow> string \<Rightarrow> int \<Rightarrow> int \<Rightarrow> world \<Rightarrow> (error + json) option \<times> world" where
  "process_and_wait fuel s file_path task poll_interval timeout w =
     (case process_document s file_path ''lr'' task w of
        (Inl e, w1) \<Rightarrow> (Some (Inl e), w1)
      | (Inr submit_result, w1) \<Rightarrow>
          (case py_item submit_result ''document_id'' of
             Inl e \<Rightarrow> (Some (Inl e), w1)
           | Inr document_id \<Rightarrow>
               (case time_time w1 of
                  (start_time, w2) \<Rightarrow>
                    process_and_wait_loop fuel s document_id poll_interval timeout
                      start_time w2)))"

subsection \<open>The vocabulary of the specification\<close>

text \<open>
  The conditions the specification names, written from its words and independently
  of the checks in the code; the lemmas below relate the two.

  \<open>field\<close> reads a member of a JSON object. \<open>both_present\<close>: the payload has both
  \<open>data.fhir\<close> and \<open>data.output\<close>, and neither is empty. \<open>status_failed\<close>: the
  payload's \<open>status\<close> is \<open>"failed"\<close>. \<open>well_shaped\<close>: the payload is a JSON object whose
  \<open>data\<close> member, when present, is a JSON object (the shape \<open>{status, data: {fhir?,
  output?}}\<close> of a result).
\<close>

fun field :: "json \<Rightarrow> string \<Rightarrow> json option" where
  "field (JObj d) k = map_of d k"
| "field x k = None"

definition both_present :: "json \<Rightarrow> bool" where
  "both_present payload =
     (case field payload ''data'' of
        None \<Rightarrow> False
      | Some data \<Rightarrow>
          (case field data ''fhir'' of None \<Rightarrow> False | Some fhir \<Rightarrow> truthy fhir) \<and>
          (case field data ''output'' of None \<Rightarrow> False | Some output \<Rightarrow> truthy output))"

definition status_failed :: "json \<Rightarrow> bool" where
  "status_failed payload = (field payload ''status'' = Some (JStr ''failed''))"

definition well_shaped :: "json \<Rightarrow> bool" where
  "well_shaped payload =
     (case payload of
        JObj d \<Rightarrow> (case map_of d ''data'' of None \<Rightarrow> True | Some (JObj x) \<Rightarrow> True | Some y \<Rightarrow> False)
      | x \<Rightarrow> False)"

text \<open>The payloads that the HTTP exchanges of a trace delivered.\<close>

fun fetched :: "event list \<Rightarrow> json list" where
  "fetched [] = []"
| "fetched (Http r rep # es) =
     (case response_json rep of Inl e \<Rightarrow> fetched es | Inr payload \<Rightarrow> payload # fetched es)"
| "fetched (ev # es) = fetched es"

text \<open>
  A reply that keeps the loop waiting: the call succeeds and delivers a well-shaped
  payload that is neither complete nor failed.
\<close>

definition pending_reply :: "reply \<Rightarrow> bool" where
  "pending_reply rep =
     (case response_json rep of
        Inl e \<Rightarrow> False
      | Inr payload \<Rightarrow> well_shaped payload \<and> \<not> both_present payload \<and> \<not> status_failed payload)"

text \<open>
  The events of \<open>m\<close> iterations that end in a sleep (clock reading, fetch, sleep, each
  with the reading and the reply the world holds for it), and the world after them.
\<close>

definition waiting_events :: "world \<Rightarrow> request \<Rightarrow> int \<Rightarrow> nat \<Rightarrow> event list" where
  "waiting_events w r p m =
     concat (map (\<lambda>k. [ClockRead (clock w k), Http r (server w k r), Sleep p]) [0..<m])"

definition after_waiting :: "world \<Rightarrow> request \<Rightarrow> int \<Rightarrow> nat \<Rightarrow> world" where
  "after_waiting w r p m =
     w\<lparr>clock := \<lambda>k. clock w (m + k), server := \<lambda>k. server w (m + k),
       trace := trace w @ waiting_events w r p m\<rparr>"

text \<open>
  The order of the steps of the loop, read off a trace: every iteration starts with a
  clock reading; a fetch comes only after a clock reading, a sleep only after a fetch;
  and the trace ends after a clock reading (timeout), after a fetch (completed, failed
  or an exception) or after a sleep (still waiting).
\<close>

fun iteration_order :: "event list \<Rightarrow> bool" where
  "iteration_order [] = True"
| "iteration_order [ClockRead c] = True"
| "iteration_order [ClockRead c, Http r rep] = True"
| "iteration_order (ClockRead c # Http r rep # Sleep p # es) = iteration_order es"
| "iteration_order es = False"

text \<open>The world in which the loop starts: after the upload \<open>r\<close> and the reading of \<open>start_time\<close>.\<close>

definition loop_entry :: "world \<Rightarrow> request \<Rightarrow> world" where
  "loop_entry w r = snd (time_time (snd (send r w)))"

text \<open>
  Authentication: the two exceptions \<open>_authenticate\<close> raises itself; a call that failed
  (no response, a status from 400 to 599, or a body that is not JSON); a decoded
  response that is a JSON object without \<open>access_token\<close>; the token a response holds;
  and an event that, when it is a request, carries \<open>Authorization: Bearer {token}\<close>.
\<close>

definition is_authentication_error :: "error + sdk \<Rightarrow> bool" where
  "is_authentication_error r = (r = Inl AuthenticationFailed \<or> r = Inl AccessTokenNotFound)"

definition call_failed :: "reply \<Rightarrow> bool" where
  "call_failed rep = (case response_json rep of Inl e \<Rightarrow> True | Inr data \<Rightarrow> False)"

definition lacks_access_token :: "reply \<Rightarrow> bool" where
  "lacks_access_token rep =
     (case response_json rep of
        Inr (JObj d) \<Rightarrow> map_of d ''access_token'' = None
      | _ \<Rightarrow> False)"

definition received_token :: "reply \<Rightarrow> json option" where
  "received_token rep =
     (case response_json rep of
        Inr (JObj d) \<Rightarrow> map_of d ''access_token''
      | _ \<Rightarrow> None)"

definition authorized :: "json \<Rightarrow> event \<Rightarrow> bool" where
  "authorized token ev =
     (case ev of
        Http r rep \<Rightarrow> map_of (req_headers r) ''Authorization'' = Some [Lit ''Bearer '', Str token]
      | _ \<Rightarrow> True)"

subsection \<open>Example worlds\<close>

text \<open>
  Concrete clients, file systems, clocks and servers, on which the theorems below are
  instantiated.
\<close>

definition demo_sdk :: sdk where
  "demo_sdk =
     \<lparr>client_id = ''id'', client_secret = ''secret'', base_url = ''https://api.eka.care'',
      bearer_token = Some (JStr ''tok''),
      session_headers = [(''Authorization'', [Lit ''Bearer '', Str (JStr ''tok'')])]\<rparr>"

definition demo_files :: "string \<Rightarrow> fs_entry option" where
  "demo_files p = (if p = ''report.jpg'' then Some (Readable ''JFIF'') else None)"

definition no_guess :: "string \<Rightarrow> string option" where
  "no_guess p = None"

definition demo_world :: "(nat \<Rightarrow> real) \<Rightarrow> (nat \<Rightarrow> request \<Rightarrow> reply) \<Rightarrow> world" where
  "demo_world c srv =
     \<lparr>files = demo_files, guess_type = no_guess, clock = c, server = srv, trace = []\<rparr>"

definition frozen_clock :: "nat \<Rightarrow> real" where
  "frozen_clock k = 0"

definition silent_server :: "nat \<Rightarrow> request \<Rightarrow> reply" where
  "silent_server k r = NoResponse"

text \<open>
  Result payloads: one still pending; one with both parts present under a status other
  than \<open>completed\<close> and with a member the client does not know; one with status
  \<open>completed\<close> and an empty \<open>fhir\<close>; one failed. Then the replies to a submission and
  to the authentication call.
\<close>

definition pending_payload :: json where
  "pending_payload = JObj [(''status'', JStr ''pending''), (''data'', JObj [])]"

definition ready_payload :: json where
  "ready_payload =
     JObj [(''status'', JStr ''processing''),
           (''data'', JObj [(''fhir'', JObj [(''resourceType'', JStr ''Bundle'')]),
                            (''output'', JObj [(''name'', JStr ''Hb'')])]),
           (''trace_id'', JStr ''abc'')]"

definition hollow_payload :: json where
  "hollow_payload =
     JObj [(''status'', JStr ''completed''),
           (''data'', JObj [(''fhir'', JObj []), (''output'', JObj [(''name'', JStr ''Hb'')])])]"

definition failed_payload :: json where
  "failed_payload = JObj [(''status'', JStr ''failed''), (''data'', JObj [])]"

definition submit_payload :: json where
  "submit_payload = JObj [(''document_id'', JStr ''doc_1''), (''status'', JStr ''queued'')]"

definition token_payload :: json where
  "token_payload = JObj [(''access_token'', JStr ''tok''), (''expires_in'', JInt 3600)]"

text \<open>
  Clocks: one that advances a second with every reading, one that stands beyond a
  timeout of 300 seconds. Servers: each maps the number of the request to its reply.
\<close>

definition second_clock :: "nat \<Rightarrow> real" where
  "second_clock k = real k"

definition late_clock :: "nat \<Rightarrow> real" where
  "late_clock k = 301"

definition ready_server :: "nat \<Rightarrow> request \<Rightarrow> reply" where
  "ready_server k r = Response 200 (Some ready_payload)"

definition hollow_server :: "nat \<Rightarrow> request \<Rightarrow> reply" where
  "hollow_server k r = Response 200 (Some hollow_payload)"

fun pending_service :: "nat \<Rightarrow> request \<Rightarrow> reply" where
  "pending_service 0 r = Response 200 (Some submit_payload)"
| "pending_service (Suc k) r = Response 200 (Some pending_payload)"

fun failing_service :: "nat \<Rightarrow> request \<Rightarrow> reply" where
  "failing_service 0 r = Response 200 (Some submit_payload)"
| "failing_service (Suc 0) r = Response 200 (Some pending_payload)"
| "failing_service (Suc (Suc k)) r = Response 200 (Some failed_payload)"

definition anonymous_service :: "nat \<Rightarrow> request \<Rightarrow> reply" where
  "anonymous_service k r = Response 200 (Some (JObj [(''status'', JStr ''queued'')]))"

fun auth_service :: "nat \<Rightarrow> request \<Rightarrow> reply" where
  "auth_service 0 r = Response 200 (Some token_payload)"
| "auth_service (Suc 0) r = Response 200 (Some submit_payload)"
| "auth_service (Suc (Suc 0)) r = Response 200 (Some pending_payload)"
| "auth_service (Suc (Suc (Suc k))) r = Response 200 (Some ready_payload)"

section \<open>Properties\<close>

subsection \<open>Submission\<close>

lemma process_document_sends:
  assumes "files w file_path = Some (Readable c)" and "task \<in> set valid_tasks"
  shows "process_document s file_path doc_type task w =
     (response_json (server w 0 (upload_request s file_path doc_type task c (guess_type w file_path))),
      w\<lparr>server := \<lambda>k. server w (Suc k),
        trace := trace w @ [Http (upload_request s file_path doc_type task c (guess_type w file_path))
                     (server w 0 (upload_request s file_path doc_type task c (guess_type w file_path)))]\<rparr>)"
  using assms by (simp add: process_document_def send_def)

text \<open>
  C2. Submitting an existing, readable file with a valid task sends exactly one request.
  With task \<open>both\<close> its query parameters hold exactly two \<open>task\<close> entries, \<open>smart\<close> and
  \<open>pii\<close> in that order; with \<open>smart\<close> or \<open>pii\<close> exactly one entry with that value; and
  never an entry \<open>task=both\<close>.
\<close>

theorem process_document_task_params:
  assumes "files w file_path = Some (Readable c)" and "task \<in> set valid_tasks"
  shows "events_since w (snd (process_document s file_path doc_type task w)) =
           [Http (upload_request s file_path doc_type task c (guess_type w file_path))
              (server w 0 (upload_request s file_path doc_type task c (guess_type w file_path)))]
       \<and> filter (\<lambda>p. fst p = ''task'')
            (req_params (upload_request s file_path doc_type task c (guess_type w file_path))) =
           (if task = ''both'' then [(''task'', ''smart''), (''task'', ''pii'')] else [(''task'', task)])
       \<and> (''task'', ''both'') \<notin> set (req_params (upload_request s file_path doc_type task c (guess_type w file_path)))"
  using assms
  by (auto simp add: process_document_sends events_since_def upload_request_def session_request_def
      build_params_def valid_tasks_def)

theorem process_document_task_params_witness:
  "files (demo_world frozen_clock silent_server) ''report.jpg'' = Some (Readable ''JFIF'')
   \<and> ''both'' \<in> set valid_tasks
   \<and> filter (\<lambda>p. fst p = ''task'')
        (req_params (upload_request demo_sdk ''report.jpg'' ''lr'' ''both'' ''JFIF''
           (guess_type (demo_world frozen_clock silent_server) ''report.jpg''))) =
       [(''task'', ''smart''), (''task'', ''pii'')]
   \<and> length (events_since (demo_world frozen_clock silent_server)
        (snd (process_document demo_sdk ''report.jpg'' ''lr'' ''both''
           (demo_world frozen_clock silent_server)))) = 1"
proof -
  have f: "files (demo_world frozen_clock silent_server) ''report.jpg'' = Some (Readable ''JFIF'')"
    by (simp add: demo_world_def demo_files_def)
  have t: "''both'' \<in> set valid_tasks"
    by (simp add: valid_tasks_def)
  show ?thesis
    using f t process_document_task_params [OF f t, of demo_sdk "''lr''"] by simp
qed

text \<open>
  C3 (as amended). A task outside \<open>smart\<close>, \<open>pii\<close>, \<open>both\<close> makes \<open>process_document\<close>
  raise \<open>ValueError\<close> when the path exists, and \<open>FileNotFoundError\<close> when it does not
  (the existence check comes first); in both cases the world is returned as it was, so
  no network call has been made.
\<close>

theorem process_document_invalid_task:
  "task \<notin> set valid_tasks \<Longrightarrow>
   process_document s file_path doc_type task w =
     (if files w file_path = None then Inl FileNotFoundError else Inl ValueError, w)"
  by (simp add: process_document_def)

theorem process_document_invalid_task_witness:
  "''summary'' \<notin> set valid_tasks \<and>
   process_document demo_sdk ''report.jpg'' ''lr'' ''summary'' (demo_world frozen_clock silent_server) =
     (Inl ValueError, demo_world frozen_clock silent_server)"
  using process_document_invalid_task [of "''summary''" demo_sdk "''report.jpg''" "''lr''"
      "demo_world frozen_clock silent_server"]
  by (simp add: valid_tasks_def demo_world_def demo_files_def)

text \<open>
  The claim as stated (a \<open>ValueError\<close> for every file path) fails on a path that does not
  exist: the call raises \<open>FileNotFoundError\<close>.
\<close>

theorem invalid_task_missing_file_counterexample:
  "''summary'' \<notin> set valid_tasks \<and>
   fst (process_document demo_sdk ''missing.jpg'' ''lr'' ''summary''
          (demo_world frozen_clock silent_server)) = Inl FileNotFoundError \<and>
   fst (process_document demo_sdk ''missing.jpg'' ''lr'' ''summary''
          (demo_world frozen_clock silent_server)) \<noteq> Inl ValueError"
  by (simp add: process_document_def valid_tasks_def demo_world_def demo_files_def)

subsection \<open>The checks of the loop and the conditions of the specification\<close>

text \<open>
  The completion check of the code (lines 218 to 221) returns \<open>True\<close> exactly on the
  payloads with both \<open>data.fhir\<close> and \<open>data.output\<close> non-empty; on a well-shaped
  payload neither check raises, and each computes the specification's condition.
\<close>

lemma processing_complete_no_dict:
  "(\<forall>d. p \<noteq> JObj d) \<Longrightarrow> processing_complete p = Inl AttributeError"
  by (cases p) (simp_all add: processing_complete_def)

lemma processing_complete_no_data:
  "map_of d ''data'' = None \<Longrightarrow> processing_complete (JObj d) = Inr False"
  by (simp add: processing_complete_def)

lemma processing_complete_data_dict:
  "map_of d ''data'' = Some (JObj x) \<Longrightarrow>
   processing_complete (JObj d) =
     Inr ((case map_of x ''fhir'' of None \<Rightarrow> False | Some v \<Rightarrow> truthy v) \<and>
          (case map_of x ''output'' of None \<Rightarrow> False | Some v \<Rightarrow> truthy v))"
  by (simp add: processing_complete_def split: option.splits)

lemma processing_complete_data_other:
  "map_of d ''data'' = Some v \<Longrightarrow> (\<forall>x. v \<noteq> JObj x) \<Longrightarrow>
   processing_complete (JObj d) = Inl AttributeError"
  by (cases v) (simp_all add: processing_complete_def)

lemma both_present_no_dict: "(\<forall>d. p \<noteq> JObj d) \<Longrightarrow> \<not> both_present p"
  by (cases p) (simp_all add: both_present_def)

lemma both_present_no_data: "map_of d ''data'' = None \<Longrightarrow> \<not> both_present (JObj d)"
  by (simp add: both_present_def)

lemma both_present_data_dict:
  "map_of d ''data'' = Some (JObj x) \<Longrightarrow>
   both_present (JObj d) =
     ((case map_of x ''fhir'' of None \<Rightarrow> False | Some v \<Rightarrow> truthy v) \<and>
      (case map_of x ''output'' of None \<Rightarrow> False | Some v \<Rightarrow> truthy v))"
  by (simp add: both_present_def)

lemma both_present_data_other:
  "map_of d ''data'' = Some v \<Longrightarrow> (\<forall>x. v \<noteq> JObj x) \<Longrightarrow> \<not> both_present (JObj d)"
  by (cases v) (simp_all add: both_present_def)

lemma processing_complete_iff: "processing_complete p = Inr True \<longleftrightarrow> both_present p"
proof (cases "\<exists>d. p = JObj d")
  case False
  then show ?thesis
    by (simp add: processing_complete_no_dict both_present_no_dict)
next
  case True
  then obtain d where p: "p = JObj d" by blast
  show ?thesis
  proof (cases "map_of d ''data''")
    case None
    then show ?thesis
      by (simp add: p processing_complete_no_data both_present_no_data)
  next
    case (Some v)
    show ?thesis
    proof (cases "\<exists>x. v = JObj x")
      case True
      then obtain x where "v = JObj x" by blast
      with Some show ?thesis
        by (simp add: p processing_complete_data_dict both_present_data_dict)
    next
      case False
      with Some show ?thesis
        by (simp add: p processing_complete_data_other both_present_data_other)
    qed
  qed
qed

lemma both_imp_complete: "both_present p \<Longrightarrow> processing_complete p = Inr True"
  using processing_complete_iff by blast

lemma well_shaped_complete: "well_shaped p \<Longrightarrow> processing_complete p = Inr (both_present p)"
proof -
  assume ws: "well_shaped p"
  then obtain d where p: "p = JObj d"
    by (cases p) (simp_all add: well_shaped_def)
  show ?thesis
  proof (cases "map_of d ''data''")
    case None
    then show ?thesis
      by (simp add: p processing_complete_no_data both_present_no_data)
  next
    case (Some v)
    with ws p obtain x where "v = JObj x"
      by (cases v) (simp_all add: well_shaped_def)
    with Some show ?thesis
      by (simp add: p processing_complete_data_dict both_present_data_dict)
  qed
qed

lemma well_shaped_failed: "well_shaped p \<Longrightarrow> processing_failed p = Inr (status_failed p)"
  by (cases p) (simp_all add: well_shaped_def processing_failed_def status_failed_def split: option.splits)

text \<open>The completion check raises exactly on the payloads that are not well-shaped.\<close>

lemma processing_complete_raises_iff:
  "processing_complete p = Inl AttributeError \<longleftrightarrow> \<not> well_shaped p"
proof (cases "well_shaped p")
  case True
  then show ?thesis
    by (simp add: well_shaped_complete)
next
  case False
  show ?thesis
  proof (cases "\<exists>d. p = JObj d")
    case no: False
    then show ?thesis
      using False by (simp add: processing_complete_no_dict)
  next
    case True
    then obtain d where p: "p = JObj d" by blast
    from False p obtain v where v: "map_of d ''data'' = Some v" and nv: "\<forall>x. v \<noteq> JObj x"
      by (auto simp add: well_shaped_def split: option.splits json.splits)
    show ?thesis
      using False by (simp add: p processing_complete_data_other [OF v nv])
  qed
qed

subsection \<open>One iteration of the loop\<close>

lemma events_since_append: "trace w' = trace w @ es \<Longrightarrow> events_since w w' = es"
  by (simp add: events_since_def)

lemma time_time_simps:
  "fst (time_time w) = clock w 0"
  "trace (snd (time_time w)) = trace w @ [ClockRead (clock w 0)]"
  "clock (snd (time_time w)) = (\<lambda>k. clock w (Suc k))"
  "server (snd (time_time w)) = server w"
  by (simp_all add: time_time_def)

lemma get_document_result_simps:
  "fst (get_document_result s d w) = response_json (server w 0 (result_request s d))"
  "trace (snd (get_document_result s d w)) = trace w @ [Http (result_request s d) (server w 0 (result_request s d))]"
  "clock (snd (get_document_result s d w)) = clock w"
  "server (snd (get_document_result s d w)) = (\<lambda>k. server w (Suc k))"
  by (simp_all add: get_document_result_def send_def)

lemma time_sleep_simps:
  "fst (time_sleep p w) = (if p < 0 then Inl ValueError else Inr ())"
  "trace (snd (time_sleep p w)) = (if p < 0 then trace w else trace w @ [Sleep p])"
  "clock (snd (time_sleep p w)) = clock w"
  "server (snd (time_sleep p w)) = server w"
  by (simp_all add: time_sleep_def)

text \<open>One iteration, with the worlds it passes through written out.\<close>

lemma loop_Suc:
  "process_and_wait_loop (Suc n) s d p t st w =
     (if clock w 0 - st > real_of_int t then (Some (Inl TimeoutError), snd (time_time w))
      else
        (case response_json (server w 0 (result_request s d)) of
           Inl e \<Rightarrow> (Some (Inl e), snd (get_document_result s d (snd (time_time w))))
         | Inr result \<Rightarrow>
             (case processing_complete result of
                Inl e \<Rightarrow> (Some (Inl e), snd (get_document_result s d (snd (time_time w))))
              | Inr c \<Rightarrow>
                  if c then (Some (Inr result), snd (get_document_result s d (snd (time_time w))))
                  else
                    (case processing_failed result of
                       Inl e \<Rightarrow> (Some (Inl e), snd (get_document_result s d (snd (time_time w))))
                     | Inr f \<Rightarrow>
                         if f then (Some (Inl ProcessingFailed), snd (get_document_result s d (snd (time_time w))))
                         else if p < 0 then (Some (Inl ValueError), snd (get_document_result s d (snd (time_time w))))
                         else process_and_wait_loop n s d p t st
                                (snd (time_sleep p (snd (get_document_result s d (snd (time_time w))))))))))"
  by (simp add: time_time_def get_document_result_def send_def time_sleep_def
      split: prod.splits sum.splits)

lemma loop_trace_extends:
  "\<exists>es. trace (snd (process_and_wait_loop n s d p t st w)) = trace w @ es"
proof (induction n arbitrary: w)
  case 0
  show ?case by simp
next
  case (Suc n)
  obtain es where es: "trace (snd (process_and_wait_loop n s d p t st
        (snd (time_sleep p (snd (get_document_result s d (snd (time_time w)))))))) =
      trace (snd (time_sleep p (snd (get_document_result s d (snd (time_time w)))))) @ es"
    using Suc.IH by blast
  show ?case
    unfolding loop_Suc
    by (simp add: es time_time_simps get_document_result_simps time_sleep_simps
        split: sum.splits)
qed

lemma events_since_trans:
  assumes "trace w1 = trace w @ es1" and "\<exists>es. trace w2 = trace w1 @ es"
  shows "events_since w w2 = es1 @ events_since w1 w2"
  using assms by (auto simp add: events_since_def)

lemma events_since_iteration:
  assumes "0 \<le> p"
  shows "events_since w (snd (process_and_wait_loop n s d p t st
            (snd (time_sleep p (snd (get_document_result s d (snd (time_time w)))))))) =
         [ClockRead (clock w 0), Http (result_request s d) (server w 0 (result_request s d)), Sleep p] @
         events_since (snd (time_sleep p (snd (get_document_result s d (snd (time_time w))))))
           (snd (process_and_wait_loop n s d p t st
            (snd (time_sleep p (snd (get_document_result s d (snd (time_time w))))))))"
  using assms
  by (intro events_since_trans loop_trace_extends)
     (simp add: time_time_simps get_document_result_simps time_sleep_simps)

lemma events_since_clock: "events_since w (snd (time_time w)) = [ClockRead (clock w 0)]"
  by (simp add: events_since_def time_time_def)

lemma events_since_fetch:
  "events_since w (snd (get_document_result s d (snd (time_time w)))) =
     [ClockRead (clock w 0), Http (result_request s d) (server w 0 (result_request s d))]"
  by (simp add: events_since_def time_time_simps get_document_result_simps)

lemma loop_completed_iff:
  "fst (process_and_wait_loop n s d p t st w) = Some (Inr result) \<longleftrightarrow>
     result \<in> set (fetched (events_since w (snd (process_and_wait_loop n s d p t st w)))) \<and>
     both_present result"
proof (induction n arbitrary: w)
  case 0
  show ?case by (simp add: events_since_def)
next
  case (Suc n)
  show ?case
    unfolding loop_Suc
    by (auto simp add: events_since_clock events_since_fetch events_since_iteration Suc.IH
        processing_complete_iff [symmetric]
        split: sum.splits)
qed

lemma iteration_order_trace:
  "iteration_order (events_since w (snd (process_and_wait_loop n s d p t st w)))"
proof (induction n arbitrary: w)
  case 0
  show ?case by (simp add: events_since_def)
next
  case (Suc n)
  show ?case
    unfolding loop_Suc
    by (auto simp add: events_since_clock events_since_fetch events_since_iteration Suc.IH
        split: sum.splits)
qed

subsection \<open>Iterations that keep waiting\<close>

lemma pending_reply_step:
  assumes "pending_reply (server w 0 (result_request s d))" and "\<not> clock w 0 - st > real_of_int t"
    and "0 \<le> p"
  shows "process_and_wait_loop (Suc n) s d p t st w =
         process_and_wait_loop n s d p t st (after_waiting w (result_request s d) p 1)"
proof -
  obtain payload where r: "response_json (server w 0 (result_request s d)) = Inr payload"
    and ws: "well_shaped payload" and nb: "\<not> both_present payload" and nf: "\<not> status_failed payload"
    using assms(1) by (auto simp add: pending_reply_def split: sum.splits)
  have w3: "snd (time_sleep p (snd (get_document_result s d (snd (time_time w))))) =
        after_waiting w (result_request s d) p 1"
    using assms(3)
    by (simp add: time_sleep_def get_document_result_def send_def time_time_def after_waiting_def
        waiting_events_def)
  show ?thesis
    unfolding loop_Suc
    using assms(2,3) by (simp add: r well_shaped_complete [OF ws] well_shaped_failed [OF ws] nb nf w3)
qed

lemma waiting_events_Suc:
  "waiting_events w r p (Suc m) =
     [ClockRead (clock w 0), Http r (server w 0 r), Sleep p] @
     waiting_events (after_waiting w r p 1) r p m"
  by (simp add: waiting_events_def after_waiting_def map_upt_Suc del: upt_Suc)

lemma after_waiting_Suc:
  "after_waiting (after_waiting w r p 1) r p m = after_waiting w r p (Suc m)"
  unfolding waiting_events_Suc [of w r p m] after_waiting_def [of w r p "Suc m"]
  by (simp add: after_waiting_def waiting_events_def)

lemma loop_skip_pending:
  assumes "0 \<le> p"
    and "\<forall>k<m. \<not> clock w k - st > real_of_int t"
    and "\<forall>k<m. pending_reply (server w k (result_request s d))"
  shows "process_and_wait_loop (m + n) s d p t st w =
         process_and_wait_loop n s d p t st (after_waiting w (result_request s d) p m)"
  using assms
proof (induction m arbitrary: w)
  case 0
  show ?case by (simp add: after_waiting_def waiting_events_def)
next
  case (Suc m)
  let ?w = "after_waiting w (result_request s d) p 1"
  have c: "\<forall>k<m. \<not> clock ?w k - st > real_of_int t"
    using Suc.prems(2) by (simp add: after_waiting_def)
  have r: "\<forall>k<m. pending_reply (server ?w k (result_request s d))"
    using Suc.prems(3) by (simp add: after_waiting_def)
  have "process_and_wait_loop (Suc m + n) s d p t st w = process_and_wait_loop (m + n) s d p t st ?w"
    using pending_reply_step [where w = w and n = "m + n"] Suc.prems by simp
  also have "\<dots> = process_and_wait_loop n s d p t st (after_waiting ?w (result_request s d) p m)"
    using Suc.IH [OF Suc.prems(1) c r] .
  finally show ?case by (simp only: after_waiting_Suc)
qed

lemma after_waiting_trace:
  "trace (after_waiting w r p m) = trace w @ waiting_events w r p m"
  "clock (after_waiting w r p m) k = clock w (m + k)"
  "server (after_waiting w r p m) k = server w (m + k)"
  by (simp_all add: after_waiting_def)

lemma loop_timeout_after:
  assumes "0 \<le> p"
    and "\<forall>k<m. \<not> clock w k - st > real_of_int t"
    and "clock w m - st > real_of_int t"
    and "\<forall>k<m. pending_reply (server w k (result_request s d))"
    and "m < fuel"
  shows "fst (process_and_wait_loop fuel s d p t st w) = Some (Inl TimeoutError) \<and>
         events_since w (snd (process_and_wait_loop fuel s d p t st w)) =
           waiting_events w (result_request s d) p m @ [ClockRead (clock w m)]"
proof -
  from assms(5) obtain n where "fuel = Suc (m + n)"
    by (auto dest: less_imp_Suc_add)
  then have fuel: "fuel = m + Suc n"
    by simp
  have "process_and_wait_loop fuel s d p t st w =
        process_and_wait_loop (Suc n) s d p t st (after_waiting w (result_request s d) p m)"
    unfolding fuel using loop_skip_pending [OF assms(1,2,4)] .
  also have "\<dots> = (Some (Inl TimeoutError), snd (time_time (after_waiting w (result_request s d) p m)))"
    unfolding loop_Suc using assms(3) by (simp add: after_waiting_trace)
  finally show ?thesis
    by (simp add: events_since_def time_time_simps after_waiting_trace)
qed

lemma loop_failed_after:
  assumes "0 \<le> p"
    and "\<forall>k\<le>m. \<not> clock w k - st > real_of_int t"
    and "\<forall>k<m. pending_reply (server w k (result_request s d))"
    and "response_json (server w m (result_request s d)) = Inr payload"
    and "well_shaped payload" and "\<not> both_present payload" and "status_failed payload"
    and "m < fuel"
  shows "fst (process_and_wait_loop fuel s d p t st w) = Some (Inl ProcessingFailed) \<and>
         events_since w (snd (process_and_wait_loop fuel s d p t st w)) =
           waiting_events w (result_request s d) p m @
           [ClockRead (clock w m), Http (result_request s d) (server w m (result_request s d))]"
proof -
  from assms(8) obtain n where "fuel = Suc (m + n)"
    by (auto dest: less_imp_Suc_add)
  then have fuel: "fuel = m + Suc n"
    by simp
  have c: "\<forall>k<m. \<not> clock w k - st > real_of_int t"
    using assms(2) by simp
  have "process_and_wait_loop fuel s d p t st w =
        process_and_wait_loop (Suc n) s d p t st (after_waiting w (result_request s d) p m)"
    unfolding fuel using loop_skip_pending [OF assms(1) c assms(3)] .
  also have "\<dots> = (Some (Inl ProcessingFailed),
       snd (get_document_result s d (snd (time_time (after_waiting w (result_request s d) p m)))))"
    unfolding loop_Suc using assms(2,4,6,7)
    by (simp add: after_waiting_trace well_shaped_complete [OF assms(5)] well_shaped_failed [OF assms(5)])
  finally show ?thesis
    by (simp add: events_since_def time_time_simps get_document_result_simps after_waiting_trace)
qed

lemma process_and_wait_polls:
  assumes "files w file_path = Some (Readable c)" and "task \<in> set valid_tasks"
    and "response_json (server w 0 (upload_request s file_path ''lr'' task c (guess_type w file_path))) = Inr submit_result"
    and "py_item submit_result ''document_id'' = Inr d"
  shows "process_and_wait fuel s file_path task p t w =
         process_and_wait_loop fuel s d p t (clock w 0)
           (loop_entry w (upload_request s file_path ''lr'' task c (guess_type w file_path)))"
  using assms
  by (simp add: process_and_wait_def process_document_sends loop_entry_def time_time_def send_def)

lemma loop_entry_simps:
  "trace (loop_entry w r) = trace w @ [Http r (server w 0 r), ClockRead (clock w 0)]"
  "clock (loop_entry w r) k = clock w (Suc k)"
  "server (loop_entry w r) k = server w (Suc k)"
  by (simp_all add: loop_entry_def time_time_def send_def)

lemma events_since_entry:
  assumes "events_since (loop_entry w r) w' = es" and "\<exists>es. trace w' = trace (loop_entry w r) @ es"
  shows "events_since w w' = [Http r (server w 0 r), ClockRead (clock w 0)] @ es"
  using assms by (auto simp add: events_since_def loop_entry_simps)

subsection \<open>Authentication and the session's headers\<close>

lemma init_new: "init cid secret url w = authenticate (new_sdk cid secret url) w"
  by (simp add: init_def new_sdk_def)

lemma response_json_is_request_exception:
  "response_json rep = Inl e \<Longrightarrow> is_request_exception e"
  by (cases rep) (auto split: if_splits option.splits)

lemma authenticate_cases:
  "fst (authenticate s w) =
     (case response_json (server w 0 (auth_request s)) of
        Inl e \<Rightarrow> Inl AuthenticationFailed
      | Inr data \<Rightarrow>
          (case data of
             JObj d \<Rightarrow>
               (case map_of d ''access_token'' of
                  None \<Rightarrow> Inl AccessTokenNotFound
                | Some token \<Rightarrow>
                    Inr (s\<lparr>bearer_token := Some token,
                          session_headers :=
                            (''Authorization'', [Lit ''Bearer '', Str token])
                              # filter (\<lambda>h. fst h \<noteq> ''Authorization'') (session_headers s)\<rparr>))
           | _ \<Rightarrow> Inl TypeError))"
proof (cases "response_json (server w 0 (auth_request s))")
  case (Inl e)
  then show ?thesis
    by (simp add: authenticate_def authenticate_try_def send_def response_json_is_request_exception)
next
  case (Inr data)
  then show ?thesis
    by (cases data)
       (simp_all add: authenticate_def authenticate_try_def send_def split: option.splits)
qed

lemma authenticate_events:
  "events_since w (snd (authenticate s w)) = [Http (auth_request s) (server w 0 (auth_request s))]"
  by (simp add: authenticate_def authenticate_try_def send_def events_since_def
      split: sum.splits prod.splits)

lemma merge_headers_empty: "merge_headers hs [] = hs"
  by (simp add: merge_headers_def)

lemma result_request_headers: "req_headers (result_request s d) = session_headers s"
  by (simp add: result_request_def session_request_def merge_headers_empty)

lemma upload_request_headers: "req_headers (upload_request s fp dt task c g) = session_headers s"
  by (simp add: upload_request_def session_request_def merge_headers_empty)

lemma authorized_simps:
  "authorized token (ClockRead c)"
  "authorized token (Sleep p)"
  "authorized token (Http r rep) =
     (map_of (req_headers r) ''Authorization'' = Some [Lit ''Bearer '', Str token])"
  by (simp_all add: authorized_def)

lemma authorized_loop:
  assumes "map_of (session_headers s) ''Authorization'' = Some [Lit ''Bearer '', Str token]"
  shows "list_all (authorized token) (events_since w (snd (process_and_wait_loop n s d p t st w)))"
proof (induction n arbitrary: w)
  case 0
  show ?case by (simp add: events_since_def)
next
  case (Suc n)
  show ?case
    unfolding loop_Suc
    using assms
    by (auto simp add: events_since_clock events_since_fetch events_since_iteration Suc.IH
        authorized_simps result_request_headers split: sum.splits)
qed

lemma authorized_process_document:
  assumes "map_of (session_headers s) ''Authorization'' = Some [Lit ''Bearer '', Str token]"
  shows "list_all (authorized token) (events_since w (snd (process_document s fp dt task w)))"
  using assms
  by (auto simp add: process_document_def send_def events_since_def authorized_simps
      upload_request_headers split: option.splits fs_entry.splits)

lemma authorized_get_document_result:
  assumes "map_of (session_headers s) ''Authorization'' = Some [Lit ''Bearer '', Str token]"
  shows "list_all (authorized token) (events_since w (snd (get_document_result s d w)))"
  using assms
  by (simp add: get_document_result_def send_def events_since_def authorized_simps
      result_request_headers)

lemma process_document_cases:
  "process_document s fp dt task w = (Inl FileNotFoundError, w) \<or>
   process_document s fp dt task w = (Inl ValueError, w) \<or>
   process_document s fp dt task w = (Inl OSError, w) \<or>
   (\<exists>c. files w fp = Some (Readable c) \<and> task \<in> set valid_tasks)"
  by (auto simp add: process_document_def split: option.splits fs_entry.splits)

lemma authorized_process_and_wait:
  assumes a: "map_of (session_headers s) ''Authorization'' = Some [Lit ''Bearer '', Str token]"
  shows "list_all (authorized token) (events_since w (snd (process_and_wait fuel s fp task p t w)))"
proof -
  consider (early) e where "process_document s fp ''lr'' task w = (Inl e, w)"
    | (sent) c where "files w fp = Some (Readable c)" and "task \<in> set valid_tasks"
    using process_document_cases [of s fp "''lr''" task w] by blast
  then show ?thesis
  proof cases
    case early
    then show ?thesis
      by (simp add: process_and_wait_def events_since_def)
  next
    case sent
    let ?u = "upload_request s fp ''lr'' task c (guess_type w fp)"
    show ?thesis
    proof (cases "response_json (server w 0 ?u)")
      case (Inl e)
      then show ?thesis
        using a
        by (simp add: process_and_wait_def process_document_sends [OF sent] events_since_def
            authorized_simps upload_request_headers)
    next
      case (Inr submit_result)
      show ?thesis
      proof (cases "py_item submit_result ''document_id''")
        case (Inl e)
        then show ?thesis
          using a Inr
          by (simp add: process_and_wait_def process_document_sends [OF sent] events_since_def
              authorized_simps upload_request_headers)
      next
        case (Inr d)
        have run: "process_and_wait fuel s fp task p t w =
            process_and_wait_loop fuel s d p t (clock w 0) (loop_entry w ?u)"
          using process_and_wait_polls [OF sent \<open>response_json (server w 0 ?u) = Inr submit_result\<close> Inr] .
        have ev: "events_since w (snd (process_and_wait_loop fuel s d p t (clock w 0) (loop_entry w ?u))) =
            [Http ?u (server w 0 ?u), ClockRead (clock w 0)] @
            events_since (loop_entry w ?u)
              (snd (process_and_wait_loop fuel s d p t (clock w 0) (loop_entry w ?u)))"
          by (rule events_since_entry [OF refl loop_trace_extends])
        show ?thesis
          unfolding run ev
          using a authorized_loop [OF a]
          by (simp add: authorized_simps upload_request_headers)
      qed
    qed
  qed
qed

lemma response_json_not_validation:
  "response_json rep \<noteq> Inl ValueError" "response_json rep \<noteq> Inl FileNotFoundError"
  using response_json_is_request_exception [of rep] by auto

lemma init_events:
  "events_since w (snd (init cid secret url w)) =
     [Http (auth_request (new_sdk cid secret url)) (server w 0 (auth_request (new_sdk cid secret url)))]"
  by (simp add: init_def authenticate_events)

lemma init_error_iff:
  "is_authentication_error (fst (init cid secret url w)) \<longleftrightarrow>
     call_failed (server w 0 (auth_request (new_sdk cid secret url))) \<or>
     lacks_access_token (server w 0 (auth_request (new_sdk cid secret url)))"
  by (simp add: init_def authenticate_cases is_authentication_error_def call_failed_def
      lacks_access_token_def split: sum.splits json.splits option.splits)

lemma init_success_iff:
  "(\<exists>s. fst (init cid secret url w) = Inr s) \<longleftrightarrow>
     received_token (server w 0 (auth_request (new_sdk cid secret url))) \<noteq> None"
  by (simp add: init_def authenticate_cases received_token_def
      split: sum.splits json.splits option.splits)

lemma init_token:
  assumes "fst (init cid secret url w) = Inr s"
  shows "received_token (server w 0 (auth_request (new_sdk cid secret url))) = bearer_token s"
    and "bearer_token s \<noteq> None"
    and "bearer_token s = Some token \<Longrightarrow>
         map_of (session_headers s) ''Authorization'' = Some [Lit ''Bearer '', Str token]"
  using assms
  by (auto simp add: init_def authenticate_cases received_token_def
      split: sum.splits json.splits option.splits)

lemma auth_request_headers:
  "map_of (req_headers (auth_request (new_sdk cid secret url))) ''Authorization'' = None"
  by (simp add: auth_request_def session_request_def merge_headers_def new_sdk_def)

lemma rstrip_slash_demo: "rstrip_slash ''https://api.eka.care/'' = ''https://api.eka.care''"
  by (simp add: rstrip_slash_def)

subsection \<open>The polling loop\<close>

text \<open>
  C1. The polling loop ends in the completed state, returning \<open>result\<close>, if and only if
  \<open>result\<close> is a payload the loop has fetched and both \<open>data.fhir\<close> and \<open>data.output\<close> of
  it are non-empty. The \<open>status\<close> member takes no part: the condition on a payload is
  the same whatever value its \<open>status\<close> has. (The loop is bounded by \<open>n\<close> iterations; the
  equivalence holds for every bound.)
\<close>

theorem polling_completes_iff:
  "(fst (process_and_wait_loop n s d p t st w) = Some (Inr result) \<longleftrightarrow>
      result \<in> set (fetched (events_since w (snd (process_and_wait_loop n s d p t st w)))) \<and>
      both_present result)
   \<and> both_present (JObj ((''status'', v) # obj)) = both_present (JObj obj)"
  by (simp add: loop_completed_iff both_present_def)

text \<open>
  A payload with status \<open>processing\<close> and both parts present is returned as completed;
  one with status \<open>completed\<close> and an empty \<open>fhir\<close> is not, and the loop keeps waiting.
\<close>

theorem polling_completes_iff_witness:
  "both_present ready_payload \<and> field ready_payload ''status'' = Some (JStr ''processing'')
   \<and> fst (process_and_wait_loop 3 demo_sdk (JStr ''doc_1'') 10 300 0
            (demo_world second_clock ready_server)) = Some (Inr ready_payload)
   \<and> \<not> both_present hollow_payload \<and> field hollow_payload ''status'' = Some (JStr ''completed'')
   \<and> fst (process_and_wait_loop 3 demo_sdk (JStr ''doc_1'') 10 300 0
            (demo_world second_clock hollow_server)) = None"
  using polling_completes_iff [of 3 demo_sdk "JStr ''doc_1''" 10 300 0
      "demo_world second_clock ready_server" ready_payload]
  by (simp add: eval_nat_numeral time_time_def get_document_result_def send_def time_sleep_def
      processing_complete_def processing_failed_def both_present_def
      demo_world_def second_clock_def ready_server_def hollow_server_def ready_payload_def
      hollow_payload_def)

text \<open>
  C4 (as amended). Every iteration of the loop takes its steps in this order: it reads
  the clock and, when the time elapsed since the start of the loop exceeds the timeout,
  raises \<open>TimeoutError\<close> without fetching; otherwise it fetches the result, then checks
  completion, then checks the status \<open>failed\<close>, and only then sleeps. So the trace of the
  loop is a sequence of iterations (clock reading, fetch, sleep) that ends after a clock
  reading, a fetch or a sleep; an iteration that starts after the deadline fetches
  nothing; a payload fetched in an iteration that started within the deadline and
  satisfies the completion condition is returned as completed, whatever its status; and
  a well-shaped payload that does not satisfy it and has the status \<open>failed\<close> ends the
  loop with the processing failure, before any sleep.
\<close>

theorem loop_iteration_order:
  "iteration_order (events_since w (snd (process_and_wait_loop n s d p t st w)))
   \<and> (clock w 0 - st > real_of_int t \<longrightarrow>
        fst (process_and_wait_loop (Suc n) s d p t st w) = Some (Inl TimeoutError) \<and>
        events_since w (snd (process_and_wait_loop (Suc n) s d p t st w)) = [ClockRead (clock w 0)])
   \<and> (clock w 0 - st \<le> real_of_int t \<and>
        response_json (server w 0 (result_request s d)) = Inr payload \<and> both_present payload \<longrightarrow>
        fst (process_and_wait_loop (Suc n) s d p t st w) = Some (Inr payload) \<and>
        events_since w (snd (process_and_wait_loop (Suc n) s d p t st w)) =
          [ClockRead (clock w 0), Http (result_request s d) (server w 0 (result_request s d))])
   \<and> (clock w 0 - st \<le> real_of_int t \<and>
        response_json (server w 0 (result_request s d)) = Inr payload \<and>
        well_shaped payload \<and> \<not> both_present payload \<and> status_failed payload \<longrightarrow>
        fst (process_and_wait_loop (Suc n) s d p t st w) = Some (Inl ProcessingFailed) \<and>
        events_since w (snd (process_and_wait_loop (Suc n) s d p t st w)) =
          [ClockRead (clock w 0), Http (result_request s d) (server w 0 (result_request s d))])"
proof (intro conjI impI)
  show "iteration_order (events_since w (snd (process_and_wait_loop n s d p t st w)))"
    by (rule iteration_order_trace)
next
  assume "clock w 0 - st > real_of_int t"
  then have "process_and_wait_loop (Suc n) s d p t st w = (Some (Inl TimeoutError), snd (time_time w))"
    unfolding loop_Suc by simp
  then show "fst (process_and_wait_loop (Suc n) s d p t st w) = Some (Inl TimeoutError)"
    and "events_since w (snd (process_and_wait_loop (Suc n) s d p t st w)) = [ClockRead (clock w 0)]"
    by (simp_all add: events_since_clock)
next
  assume a: "clock w 0 - st \<le> real_of_int t \<and>
        response_json (server w 0 (result_request s d)) = Inr payload \<and> both_present payload"
  then have "process_and_wait_loop (Suc n) s d p t st w =
      (Some (Inr payload), snd (get_document_result s d (snd (time_time w))))"
    unfolding loop_Suc by (simp add: both_imp_complete)
  then show "fst (process_and_wait_loop (Suc n) s d p t st w) = Some (Inr payload)"
    and "events_since w (snd (process_and_wait_loop (Suc n) s d p t st w)) =
          [ClockRead (clock w 0), Http (result_request s d) (server w 0 (result_request s d))]"
    by (simp_all add: events_since_fetch)
next
  assume a: "clock w 0 - st \<le> real_of_int t \<and>
        response_json (server w 0 (result_request s d)) = Inr payload \<and>
        well_shaped payload \<and> \<not> both_present payload \<and> status_failed payload"
  then have "process_and_wait_loop (Suc n) s d p t st w =
      (Some (Inl ProcessingFailed), snd (get_document_result s d (snd (time_time w))))"
    unfolding loop_Suc by (simp add: well_shaped_complete well_shaped_failed)
  then show "fst (process_and_wait_loop (Suc n) s d p t st w) = Some (Inl ProcessingFailed)"
    and "events_since w (snd (process_and_wait_loop (Suc n) s d p t st w)) =
          [ClockRead (clock w 0), Http (result_request s d) (server w 0 (result_request s d))]"
    by (simp_all add: events_since_fetch)
qed

theorem loop_iteration_order_witness:
  "clock (demo_world second_clock ready_server) 0 - 0 \<le> real_of_int 300
   \<and> response_json (server (demo_world second_clock ready_server) 0
         (result_request demo_sdk (JStr ''doc_1''))) = Inr ready_payload
   \<and> both_present ready_payload
   \<and> fst (process_and_wait_loop (Suc 2) demo_sdk (JStr ''doc_1'') 10 300 0
            (demo_world second_clock ready_server)) = Some (Inr ready_payload)
   \<and> clock (demo_world late_clock ready_server) 0 - 0 > real_of_int 300
   \<and> events_since (demo_world late_clock ready_server)
         (snd (process_and_wait_loop (Suc 2) demo_sdk (JStr ''doc_1'') 10 300 0
            (demo_world late_clock ready_server))) = [ClockRead 301]"
proof -
  have a: "clock (demo_world second_clock ready_server) 0 - 0 \<le> real_of_int 300"
    by (simp add: demo_world_def second_clock_def)
  have b: "response_json (server (demo_world second_clock ready_server) 0
         (result_request demo_sdk (JStr ''doc_1''))) = Inr ready_payload"
    by (simp add: demo_world_def ready_server_def)
  have c: "both_present ready_payload"
    by (simp add: both_present_def ready_payload_def)
  have d: "clock (demo_world late_clock ready_server) 0 - 0 > real_of_int 300"
    by (simp add: demo_world_def late_clock_def)
  have e: "clock (demo_world late_clock ready_server) 0 = 301"
    by (simp add: demo_world_def late_clock_def)
  show ?thesis
    using a b c d e
      loop_iteration_order [of "demo_world second_clock ready_server" 2 demo_sdk "JStr ''doc_1''"
        10 300 0 ready_payload]
      loop_iteration_order [of "demo_world late_clock ready_server" 2 demo_sdk "JStr ''doc_1''"
        10 300 0 ready_payload]
    by simp
qed

text \<open>
  The claim as stated puts the fetch first and the timeout check after it, so that a
  payload waiting at the server after the deadline would still be fetched and returned.
  In the code the timeout check comes first: with the first clock reading of the loop
  beyond the deadline and a complete payload ready at the server, the loop raises
  \<open>TimeoutError\<close> and never fetches.
\<close>

theorem fetch_before_timeout_counterexample:
  "response_json (ready_server 0 (result_request demo_sdk (JStr ''doc_1''))) = Inr ready_payload
   \<and> both_present ready_payload
   \<and> fst (process_and_wait_loop 3 demo_sdk (JStr ''doc_1'') 10 300 0
            (demo_world late_clock ready_server)) = Some (Inl TimeoutError)
   \<and> events_since (demo_world late_clock ready_server)
         (snd (process_and_wait_loop 3 demo_sdk (JStr ''doc_1'') 10 300 0
            (demo_world late_clock ready_server))) = [ClockRead 301]
   \<and> fetched (events_since (demo_world late_clock ready_server)
         (snd (process_and_wait_loop 3 demo_sdk (JStr ''doc_1'') 10 300 0
            (demo_world late_clock ready_server)))) = []"
  by (simp add: eval_nat_numeral time_time_def events_since_def both_present_def
      demo_world_def late_clock_def ready_server_def ready_payload_def)

text \<open>
  C5. After a successful submission, when the poll interval is not negative, each of
  the first \<open>m\<close> clock readings of the loop lies within the timeout, each of the first
  \<open>m\<close> fetches delivers a well-shaped payload that neither satisfies the completion
  condition nor has the status \<open>failed\<close>, and the next clock reading lies beyond the
  timeout, \<open>process_and_wait\<close> raises \<open>TimeoutError\<close>. Its trace is the upload, the
  reading of the start time, \<open>m\<close> iterations of clock reading, fetch and sleep, and the
  last clock reading: no fetch follows the timeout. (Any bound above \<open>m\<close> on the
  number of iterations gives this result.)
\<close>

theorem process_and_wait_times_out:
  assumes "files w file_path = Some (Readable c)" and "task \<in> set valid_tasks"
    and "response_json (server w 0 (upload_request s file_path ''lr'' task c (guess_type w file_path))) = Inr submit_result"
    and "py_item submit_result ''document_id'' = Inr d"
    and "0 \<le> p"
    and "\<forall>k<m. clock w (Suc k) - clock w 0 \<le> real_of_int t"
    and "clock w (Suc m) - clock w 0 > real_of_int t"
    and "\<forall>k<m. pending_reply (server w (Suc k) (result_request s d))"
    and "m < fuel"
  shows "fst (process_and_wait fuel s file_path task p t w) = Some (Inl TimeoutError) \<and>
         events_since w (snd (process_and_wait fuel s file_path task p t w)) =
           [Http (upload_request s file_path ''lr'' task c (guess_type w file_path))
              (server w 0 (upload_request s file_path ''lr'' task c (guess_type w file_path))),
            ClockRead (clock w 0)] @
           waiting_events (loop_entry w (upload_request s file_path ''lr'' task c (guess_type w file_path)))
             (result_request s d) p m @
           [ClockRead (clock w (Suc m))]"
proof -
  let ?u = "upload_request s file_path ''lr'' task c (guess_type w file_path)"
  let ?e = "loop_entry w ?u"
  have run: "process_and_wait fuel s file_path task p t w =
      process_and_wait_loop fuel s d p t (clock w 0) ?e"
    using process_and_wait_polls [OF assms(1-4)] .
  have c: "\<forall>k<m. \<not> clock ?e k - clock w 0 > real_of_int t"
    using assms(6) by (simp add: loop_entry_simps not_less)
  have l: "clock ?e m - clock w 0 > real_of_int t"
    using assms(7) by (simp add: loop_entry_simps)
  have r: "\<forall>k<m. pending_reply (server ?e k (result_request s d))"
    using assms(8) by (simp add: loop_entry_simps)
  note loop = loop_timeout_after [OF assms(5) c l r assms(9)]
  have ev: "events_since w (snd (process_and_wait_loop fuel s d p t (clock w 0) ?e)) =
      [Http ?u (server w 0 ?u), ClockRead (clock w 0)] @
      (waiting_events ?e (result_request s d) p m @ [ClockRead (clock ?e m)])"
    by (rule events_since_entry [OF conjunct2 [OF loop] loop_trace_extends])
  have res: "fst (process_and_wait_loop fuel s d p t (clock w 0) ?e) = Some (Inl TimeoutError)"
    by (rule conjunct1 [OF loop])
  show ?thesis
    unfolding run res ev by (simp add: loop_entry_simps)
qed

text \<open>
  With a timeout and a poll interval of one second, a clock that advances a second
  with every reading and a server that always answers \<open>pending\<close>: one fetch, then the
  timeout.
\<close>

theorem process_and_wait_times_out_witness:
  "fst (process_and_wait 5 demo_sdk ''report.jpg'' ''smart'' 1 1
          (demo_world second_clock pending_service)) = Some (Inl TimeoutError)
   \<and> length (fetched (events_since (demo_world second_clock pending_service)
         (snd (process_and_wait 5 demo_sdk ''report.jpg'' ''smart'' 1 1
            (demo_world second_clock pending_service))))) = 2
   \<and> last (events_since (demo_world second_clock pending_service)
         (snd (process_and_wait 5 demo_sdk ''report.jpg'' ''smart'' 1 1
            (demo_world second_clock pending_service)))) = ClockRead 2"
proof -
  let ?w = "demo_world second_clock pending_service"
  let ?u = "upload_request demo_sdk ''report.jpg'' ''lr'' ''smart'' ''JFIF'' (guess_type ?w ''report.jpg'')"
  have f: "files ?w ''report.jpg'' = Some (Readable ''JFIF'')"
    by (simp add: demo_world_def demo_files_def)
  have t: "''smart'' \<in> set valid_tasks"
    by (simp add: valid_tasks_def)
  have u: "response_json (server ?w 0 ?u) = Inr submit_payload"
    by (simp add: demo_world_def)
  have i: "py_item submit_payload ''document_id'' = Inr (JStr ''doc_1'')"
    by (simp add: submit_payload_def)
  have p: "(0::int) \<le> 1"
    by simp
  have c: "\<forall>k<1. clock ?w (Suc k) - clock ?w 0 \<le> real_of_int 1"
    by (simp add: demo_world_def second_clock_def)
  have l: "clock ?w (Suc 1) - clock ?w 0 > real_of_int 1"
    by (simp add: demo_world_def second_clock_def)
  have r: "\<forall>k<1. pending_reply (server ?w (Suc k) (result_request demo_sdk (JStr ''doc_1'')))"
    by (simp add: demo_world_def pending_reply_def pending_payload_def well_shaped_def
        both_present_def status_failed_def)
  have m: "(1::nat) < 5"
    by simp
  show ?thesis
    using process_and_wait_times_out [OF f t u i p c l r m]
    by (simp add: waiting_events_def loop_entry_simps demo_world_def second_clock_def
        submit_payload_def pending_payload_def)
qed

text \<open>
  C6. After a successful submission, when the poll interval is not negative, the first
  \<open>m + 1\<close> clock readings of the loop lie within the timeout, each of the first \<open>m\<close>
  fetches delivers a well-shaped payload that neither satisfies the completion
  condition nor has the status \<open>failed\<close>, and the next fetch delivers a well-shaped
  payload that does not satisfy the completion condition and has the status \<open>failed\<close>,
  \<open>process_and_wait\<close> raises the processing failure, and that fetch is the last event of
  its trace: no further fetch is made. (On a payload that is not well-shaped the
  completion check, which comes first, raises \<open>AttributeError\<close>: see
  \<open>processing_complete_raises_iff\<close>.)
\<close>

theorem process_and_wait_fails:
  assumes "files w file_path = Some (Readable c)" and "task \<in> set valid_tasks"
    and "response_json (server w 0 (upload_request s file_path ''lr'' task c (guess_type w file_path))) = Inr submit_result"
    and "py_item submit_result ''document_id'' = Inr d"
    and "0 \<le> p"
    and "\<forall>k\<le>m. clock w (Suc k) - clock w 0 \<le> real_of_int t"
    and "\<forall>k<m. pending_reply (server w (Suc k) (result_request s d))"
    and "response_json (server w (Suc m) (result_request s d)) = Inr payload"
    and "well_shaped payload" and "\<not> both_present payload" and "status_failed payload"
    and "m < fuel"
  shows "fst (process_and_wait fuel s file_path task p t w) = Some (Inl ProcessingFailed) \<and>
         events_since w (snd (process_and_wait fuel s file_path task p t w)) =
           [Http (upload_request s file_path ''lr'' task c (guess_type w file_path))
              (server w 0 (upload_request s file_path ''lr'' task c (guess_type w file_path))),
            ClockRead (clock w 0)] @
           waiting_events (loop_entry w (upload_request s file_path ''lr'' task c (guess_type w file_path)))
             (result_request s d) p m @
           [ClockRead (clock w (Suc m)), Http (result_request s d) (server w (Suc m) (result_request s d))]"
proof -
  let ?u = "upload_request s file_path ''lr'' task c (guess_type w file_path)"
  let ?e = "loop_entry w ?u"
  have run: "process_and_wait fuel s file_path task p t w =
      process_and_wait_loop fuel s d p t (clock w 0) ?e"
    using process_and_wait_polls [OF assms(1-4)] .
  have c: "\<forall>k\<le>m. \<not> clock ?e k - clock w 0 > real_of_int t"
    using assms(6) by (simp add: loop_entry_simps not_less)
  have r: "\<forall>k<m. pending_reply (server ?e k (result_request s d))"
    using assms(7) by (simp add: loop_entry_simps)
  have f: "response_json (server ?e m (result_request s d)) = Inr payload"
    using assms(8) by (simp add: loop_entry_simps)
  note loop = loop_failed_after [OF assms(5) c r f assms(9-12)]
  have ev: "events_since w (snd (process_and_wait_loop fuel s d p t (clock w 0) ?e)) =
      [Http ?u (server w 0 ?u), ClockRead (clock w 0)] @
      (waiting_events ?e (result_request s d) p m @
       [ClockRead (clock ?e m), Http (result_request s d) (server ?e m (result_request s d))])"
    by (rule events_since_entry [OF conjunct2 [OF loop] loop_trace_extends])
  have res: "fst (process_and_wait_loop fuel s d p t (clock w 0) ?e) = Some (Inl ProcessingFailed)"
    by (rule conjunct1 [OF loop])
  show ?thesis
    unfolding run res ev by (simp add: loop_entry_simps)
qed

theorem process_and_wait_fails_witness:
  "fst (process_and_wait 5 demo_sdk ''report.jpg'' ''smart'' 10 300
          (demo_world second_clock failing_service)) = Some (Inl ProcessingFailed)
   \<and> fetched (events_since (demo_world second_clock failing_service)
         (snd (process_and_wait 5 demo_sdk ''report.jpg'' ''smart'' 10 300
            (demo_world second_clock failing_service)))) =
       [submit_payload, pending_payload, failed_payload]
   \<and> last (events_since (demo_world second_clock failing_service)
         (snd (process_and_wait 5 demo_sdk ''report.jpg'' ''smart'' 10 300
            (demo_world second_clock failing_service)))) =
       Http (result_request demo_sdk (JStr ''doc_1'')) (Response 200 (Some failed_payload))"
proof -
  let ?w = "demo_world second_clock failing_service"
  let ?u = "upload_request demo_sdk ''report.jpg'' ''lr'' ''smart'' ''JFIF'' (guess_type ?w ''report.jpg'')"
  have f: "files ?w ''report.jpg'' = Some (Readable ''JFIF'')"
    by (simp add: demo_world_def demo_files_def)
  have t: "''smart'' \<in> set valid_tasks"
    by (simp add: valid_tasks_def)
  have u: "response_json (server ?w 0 ?u) = Inr submit_payload"
    by (simp add: demo_world_def)
  have i: "py_item submit_payload ''document_id'' = Inr (JStr ''doc_1'')"
    by (simp add: submit_payload_def)
  have p: "(0::int) \<le> 10"
    by simp
  have c: "\<forall>k\<le>1. clock ?w (Suc k) - clock ?w 0 \<le> real_of_int 300"
    by (simp add: demo_world_def second_clock_def)
  have r: "\<forall>k<1. pending_reply (server ?w (Suc k) (result_request demo_sdk (JStr ''doc_1'')))"
    by (simp add: demo_world_def pending_reply_def pending_payload_def well_shaped_def
        both_present_def status_failed_def)
  have g: "response_json (server ?w (Suc 1) (result_request demo_sdk (JStr ''doc_1''))) = Inr failed_payload"
    by (simp add: demo_world_def)
  have ws: "well_shaped failed_payload" and nb: "\<not> both_present failed_payload"
    and sf: "status_failed failed_payload"
    by (simp_all add: failed_payload_def well_shaped_def both_present_def status_failed_def)
  have m: "(1::nat) < 5"
    by simp
  show ?thesis
    using process_and_wait_fails [OF f t u i p c r g ws nb sf m]
    by (simp add: waiting_events_def loop_entry_simps demo_world_def second_clock_def)
qed

subsection \<open>Fetching a result\<close>

text \<open>
  C7. When the HTTP call succeeds (a response with a status outside 400 to 599 and a
  JSON body), \<open>get_document_result\<close> returns the decoded payload itself, for every
  document id and every payload: nothing is renamed, added or dropped.
\<close>

theorem get_document_result_passthrough:
  assumes "server w 0 (result_request s document_id) = Response code (Some payload)"
    and "\<not> (400 \<le> code \<and> code < 600)"
  shows "fst (get_document_result s document_id w) = Inr payload"
  using assms by (simp add: get_document_result_simps)

theorem get_document_result_passthrough_witness:
  "server (demo_world second_clock ready_server) 0 (result_request demo_sdk (JStr ''doc_1'')) =
     Response 200 (Some ready_payload)
   \<and> \<not> (400 \<le> (200::nat) \<and> (200::nat) < 600)
   \<and> fst (get_document_result demo_sdk (JStr ''doc_1'') (demo_world second_clock ready_server)) =
       Inr ready_payload
   \<and> field ready_payload ''trace_id'' = Some (JStr ''abc'')"
proof -
  have a: "server (demo_world second_clock ready_server) 0 (result_request demo_sdk (JStr ''doc_1'')) =
     Response 200 (Some ready_payload)"
    by (simp add: demo_world_def ready_server_def)
  have b: "\<not> (400 \<le> (200::nat) \<and> (200::nat) < 600)"
    by simp
  show ?thesis
    using a b get_document_result_passthrough [OF a b] by (simp add: ready_payload_def)
qed

subsection \<open>Construction\<close>

text \<open>
  C8. Construction makes exactly one HTTP exchange, the authentication request, which
  carries no \<open>Authorization\<close> header. It fails with one of the two authentication
  exceptions exactly when the call fails or the decoded response is a JSON object
  without \<open>access_token\<close>; it succeeds exactly when the response holds a token, and
  then the client keeps that token. Every request that \<open>process_document\<close>,
  \<open>get_document_result\<close> and \<open>process_and_wait\<close> make with the constructed client
  carries \<open>Authorization: Bearer {token}\<close> with that token. (A decoded response that is
  not a JSON object holds no token either; the subscript then raises \<open>TypeError\<close>,
  which \<open>_authenticate\<close> lets through.)
\<close>

theorem init_authenticates:
  "events_since w (snd (init cid secret url w)) =
     [Http (auth_request (new_sdk cid secret url)) (server w 0 (auth_request (new_sdk cid secret url)))]
   \<and> map_of (req_headers (auth_request (new_sdk cid secret url))) ''Authorization'' = None
   \<and> (is_authentication_error (fst (init cid secret url w)) \<longleftrightarrow>
        call_failed (server w 0 (auth_request (new_sdk cid secret url))) \<or>
        lacks_access_token (server w 0 (auth_request (new_sdk cid secret url))))
   \<and> ((\<exists>s'. fst (init cid secret url w) = Inr s') \<longleftrightarrow>
        received_token (server w 0 (auth_request (new_sdk cid secret url))) \<noteq> None)
   \<and> (fst (init cid secret url w) = Inr s \<longrightarrow>
        received_token (server w 0 (auth_request (new_sdk cid secret url))) = bearer_token s)
   \<and> (fst (init cid secret url w) = Inr s \<and> bearer_token s = Some token \<longrightarrow>
        list_all (authorized token)
          (events_since w' (snd (process_document s file_path doc_type task w'))) \<and>
        list_all (authorized token)
          (events_since w' (snd (get_document_result s document_id w'))) \<and>
        list_all (authorized token)
          (events_since w' (snd (process_and_wait fuel s file_path task p t w'))))"
proof (intro conjI impI)
  show "events_since w (snd (init cid secret url w)) =
     [Http (auth_request (new_sdk cid secret url)) (server w 0 (auth_request (new_sdk cid secret url)))]"
    by (rule init_events)
  show "map_of (req_headers (auth_request (new_sdk cid secret url))) ''Authorization'' = None"
    by (rule auth_request_headers)
  show "is_authentication_error (fst (init cid secret url w)) \<longleftrightarrow>
        call_failed (server w 0 (auth_request (new_sdk cid secret url))) \<or>
        lacks_access_token (server w 0 (auth_request (new_sdk cid secret url)))"
    by (rule init_error_iff)
  show "(\<exists>s'. fst (init cid secret url w) = Inr s') \<longleftrightarrow>
        received_token (server w 0 (auth_request (new_sdk cid secret url))) \<noteq> None"
    by (rule init_success_iff)
next
  assume "fst (init cid secret url w) = Inr s"
  then show "received_token (server w 0 (auth_request (new_sdk cid secret url))) = bearer_token s"
    by (rule init_token(1))
next
  assume a: "fst (init cid secret url w) = Inr s \<and> bearer_token s = Some token"
  then have h: "map_of (session_headers s) ''Authorization'' = Some [Lit ''Bearer '', Str token]"
    using init_token(3) by blast
  show "list_all (authorized token)
          (events_since w' (snd (process_document s file_path doc_type task w')))"
    by (rule authorized_process_document [OF h])
  show "list_all (authorized token)
          (events_since w' (snd (get_document_result s document_id w')))"
    by (rule authorized_get_document_result [OF h])
  show "list_all (authorized token)
          (events_since w' (snd (process_and_wait fuel s file_path task p t w')))"
    by (rule authorized_process_and_wait [OF h])
qed

theorem init_authenticates_witness:
  "fst (init ''id'' ''secret'' ''https://api.eka.care/'' (demo_world second_clock auth_service)) =
     Inr demo_sdk
   \<and> bearer_token demo_sdk = Some (JStr ''tok'')
   \<and> list_all (authorized (JStr ''tok''))
        (events_since
           (snd (init ''id'' ''secret'' ''https://api.eka.care/'' (demo_world second_clock auth_service)))
           (snd (process_and_wait 5 demo_sdk ''report.jpg'' ''both'' 1 300
              (snd (init ''id'' ''secret'' ''https://api.eka.care/''
                 (demo_world second_clock auth_service))))))
   \<and> text_of [Lit ''Bearer '', Str (JStr ''tok'')] = Some ''Bearer tok''
   \<and> is_authentication_error
        (fst (init ''id'' ''secret'' ''https://api.eka.care/'' (demo_world second_clock silent_server)))"
proof -
  have a: "fst (init ''id'' ''secret'' ''https://api.eka.care/'' (demo_world second_clock auth_service)) =
     Inr demo_sdk"
    by (simp add: init_def authenticate_cases new_sdk_def rstrip_slash_demo demo_world_def
        token_payload_def demo_sdk_def)
  have b: "bearer_token demo_sdk = Some (JStr ''tok'')"
    by (simp add: demo_sdk_def)
  have c: "call_failed (server (demo_world second_clock silent_server) 0
        (auth_request (new_sdk ''id'' ''secret'' ''https://api.eka.care/'')))"
    by (simp add: call_failed_def demo_world_def silent_server_def)
  show ?thesis
    using a b c
      init_authenticates [of "demo_world second_clock auth_service" "''id''" "''secret''"
        "''https://api.eka.care/''" demo_sdk "JStr ''tok''"
        "snd (init ''id'' ''secret'' ''https://api.eka.care/'' (demo_world second_clock auth_service))"
        "''report.jpg''" "''lr''" "''both''" "JStr ''doc_1''" 5 1 300]
      init_authenticates [of "demo_world second_clock silent_server" "''id''" "''secret''"
        "''https://api.eka.care/''" demo_sdk "JStr ''tok''"
        "demo_world second_clock silent_server"
        "''report.jpg''" "''lr''" "''both''" "JStr ''doc_1''" 5 1 300]
    by simp
qed

subsection \<open>Submission: the document id and the document type\<close>

text \<open>
  C9. When the decoded response to the submission is a JSON object without
  \<open>document_id\<close>, \<open>process_and_wait\<close> raises \<open>KeyError\<close> with the upload as the only
  event of its trace (no clock reading, no fetch), while \<open>process_document\<close> itself
  returns that response without an error.
\<close>

theorem process_and_wait_missing_document_id:
  assumes "files w file_path = Some (Readable c)" and "task \<in> set valid_tasks"
    and "response_json (server w 0 (upload_request s file_path ''lr'' task c (guess_type w file_path))) = Inr (JObj d)"
    and "map_of d ''document_id'' = None"
  shows "fst (process_and_wait fuel s file_path task p t w) = Some (Inl KeyError)
       \<and> events_since w (snd (process_and_wait fuel s file_path task p t w)) =
           [Http (upload_request s file_path ''lr'' task c (guess_type w file_path))
              (server w 0 (upload_request s file_path ''lr'' task c (guess_type w file_path)))]
       \<and> fst (process_document s file_path ''lr'' task w) = Inr (JObj d)"
  using assms
  by (simp add: process_and_wait_def process_document_sends events_since_def)

theorem process_and_wait_missing_document_id_witness:
  "fst (process_and_wait 5 demo_sdk ''report.jpg'' ''smart'' 10 300
          (demo_world second_clock anonymous_service)) = Some (Inl KeyError)
   \<and> fetched (events_since (demo_world second_clock anonymous_service)
         (snd (process_and_wait 5 demo_sdk ''report.jpg'' ''smart'' 10 300
            (demo_world second_clock anonymous_service)))) = [JObj [(''status'', JStr ''queued'')]]
   \<and> fst (process_document demo_sdk ''report.jpg'' ''lr'' ''smart''
          (demo_world second_clock anonymous_service)) = Inr (JObj [(''status'', JStr ''queued'')])"
proof -
  let ?w = "demo_world second_clock anonymous_service"
  have f: "files ?w ''report.jpg'' = Some (Readable ''JFIF'')"
    by (simp add: demo_world_def demo_files_def)
  have t: "''smart'' \<in> set valid_tasks"
    by (simp add: valid_tasks_def)
  have u: "response_json (server ?w 0 (upload_request demo_sdk ''report.jpg'' ''lr'' ''smart'' ''JFIF''
        (guess_type ?w ''report.jpg''))) = Inr (JObj [(''status'', JStr ''queued'')])"
    by (simp add: demo_world_def anonymous_service_def)
  have k: "map_of [(''status'', JStr ''queued'')] ''document_id'' = None"
    by simp
  show ?thesis
    using process_and_wait_missing_document_id [OF f t u k, of 5 10 300]
    by (simp add: demo_world_def anonymous_service_def)
qed

text \<open>
  C10. For every \<open>doc_type\<close>, with a readable file and a valid task, \<open>process_document\<close>
  raises neither \<open>ValueError\<close> nor \<open>FileNotFoundError\<close>, sends the upload, and the query
  parameters of the upload hold exactly one \<open>dt\<close> entry, whose value is \<open>doc_type\<close> as
  given.
\<close>

theorem process_document_doc_type_verbatim:
  assumes "files w file_path = Some (Readable c)" and "task \<in> set valid_tasks"
  shows "fst (process_document s file_path doc_type task w) \<noteq> Inl ValueError
       \<and> fst (process_document s file_path doc_type task w) \<noteq> Inl FileNotFoundError
       \<and> events_since w (snd (process_document s file_path doc_type task w)) =
           [Http (upload_request s file_path doc_type task c (guess_type w file_path))
              (server w 0 (upload_request s file_path doc_type task c (guess_type w file_path)))]
       \<and> filter (\<lambda>p. fst p = ''dt'')
            (req_params (upload_request s file_path doc_type task c (guess_type w file_path))) =
           [(''dt'', doc_type)]"
  using assms
  by (auto simp add: process_document_sends response_json_not_validation events_since_def
      upload_request_def session_request_def build_params_def)

theorem process_document_doc_type_verbatim_witness:
  "files (demo_world frozen_clock silent_server) ''report.jpg'' = Some (Readable ''JFIF'')
   \<and> ''pii'' \<in> set valid_tasks
   \<and> fst (process_document demo_sdk ''report.jpg'' ''no such type &dt=lr'' ''pii''
          (demo_world frozen_clock silent_server)) = Inl ConnectionError
   \<and> req_params (upload_request demo_sdk ''report.jpg'' ''no such type &dt=lr'' ''pii'' ''JFIF''
        (guess_type (demo_world frozen_clock silent_server) ''report.jpg'')) =
       [(''dt'', ''no such type &dt=lr''), (''task'', ''pii'')]"
proof -
  have f: "files (demo_world frozen_clock silent_server) ''report.jpg'' = Some (Readable ''JFIF'')"
    by (simp add: demo_world_def demo_files_def)
  have t: "''pii'' \<in> set valid_tasks"
    by (simp add: valid_tasks_def)
  have r: "fst (process_document demo_sdk ''report.jpg'' ''no such type &dt=lr'' ''pii''
          (demo_world frozen_clock silent_server)) = Inl ConnectionError"
    unfolding process_document_sends [OF f t]
    by (simp add: demo_world_def silent_server_def)
  show ?thesis
    using f t r process_document_doc_type_verbatim [OF f t, of demo_sdk "''no such type &dt=lr''"]
    by (simp add: upload_request_def session_request_def build_params_def)
qed

end
